theory Spec2Isabelle
  imports
    Complex_Main
    "HOL-Library.Word"
    "HOL-Library.Char_ord"
    "HOL-Library.List_Lexorder"
begin

section \<open>The schemas of authopie (backend/src/schemas.py)\<close>

text \<open>
  The module declares pydantic (version 1) models. A model class is a record of its
  declared fields; building a model runs the field defaults and the validators the
  class declares, and either yields the record or fails with an error. The clock
  (\<^verbatim>\<open>time()\<close>, \<^verbatim>\<open>datetime.utcnow()\<close>) and the random source behind
  \<^verbatim>\<open>uuid.uuid4()\<close> are read from an explicit \<open>world\<close>.
\<close>

subsection \<open>Python values used by the module\<close>

text \<open>The exceptions the module's code can raise; each carries its message.\<close>

datatype error =
    ValueError string
  | TypeError string
  | AttributeError string

text \<open>The value \<^verbatim>\<open>None\<close>, as the result of a method that returns nothing.\<close>

datatype py_none = PyNone

text \<open>A keyword argument of a constructor call is either left out or given.\<close>

datatype 'a arg = Omitted | Given 'a

text \<open>\<^verbatim>\<open>uuid.UUID\<close> wraps a 128-bit integer.\<close>

type_synonym uuid = "128 word"

text \<open>
  \<^verbatim>\<open>s.split(' ')\<close>: the pieces of \<open>s\<close> between every two occurrences of the
  separator, empty pieces included; the empty string gives one empty piece. \<open>acc\<close>
  holds the current piece, reversed.
\<close>

fun split_acc :: "char \<Rightarrow> string \<Rightarrow> string \<Rightarrow> string list" where
  "split_acc sep acc [] = [rev acc]"
| "split_acc sep acc (c # cs) =
     (if c = sep then rev acc # split_acc sep [] cs else split_acc sep (c # acc) cs)"

definition str_split :: "string \<Rightarrow> char \<Rightarrow> string list" where
  "str_split s sep = split_acc sep [] s"

text \<open>\<^verbatim>\<open>sep.join(xs)\<close>.\<close>

fun str_join :: "string \<Rightarrow> string list \<Rightarrow> string" where
  "str_join sep [] = []"
| "str_join sep [x] = x"
| "str_join sep (x # y # ys) = x @ sep @ str_join sep (y # ys)"

text \<open>
  \<^verbatim>\<open>xs.sort()\<close> sorts the list in place and returns \<^verbatim>\<open>None\<close>: the pair is the list
  after the call and the value the call returns.
\<close>

definition list_sort :: "('a::linorder) list \<Rightarrow> 'a list \<times> py_none" where
  "list_sort xs = (sort xs, PyNone)"

text \<open>
  \<^verbatim>\<open>list(set(xs))\<close>: the elements of \<open>xs\<close>, each once. Python leaves the order open;
  the one chosen here is that of the first occurrences.
\<close>

definition list_of_set :: "'a list \<Rightarrow> 'a list" where
  "list_of_set xs = rev (remdups (rev xs))"

subsection \<open>Role\<close>

record RoleBase =
  name :: string
  scopes :: "string option"

definition get_scopes_as_list :: "RoleBase \<Rightarrow> string list" where
  "get_scopes_as_list self =
     (case RoleBase.scopes self of
        Some s \<Rightarrow> str_split s CHR '' ''
      | None \<Rightarrow> [])"

text \<open>The method assigns the field and returns the new value: the pair is the object
  after the call and the returned string.\<close>

definition set_scopes_from_list :: "RoleBase \<Rightarrow> string list \<Rightarrow> RoleBase \<times> string" where
  "set_scopes_from_list self xs =
     (let self' = self\<lparr>RoleBase.scopes := Some (str_join '' '' xs)\<rparr>
      in (self', the (RoleBase.scopes self')))"

text \<open>
  The validator of the field \<open>scopes\<close> (lines 34-41). \<^verbatim>\<open>[scope_list].sort()\<close> sorts
  a one-element list that holds \<open>scope_list\<close>, and \<^verbatim>\<open>check_list.sort()\<close> sorts
  \<open>check_list\<close>; the test compares what the two calls return. On \<^verbatim>\<open>None\<close> the
  first line fails, since \<^verbatim>\<open>None\<close> has no method \<^verbatim>\<open>split\<close>; Python's message
  begins and ends with a quote, the character \<open>0x27\<close>.
\<close>

definition every_scope_only_once :: "string option \<Rightarrow> error + string option" where
  "every_scope_only_once v =
     (case v of
        None \<Rightarrow> Inl (AttributeError (CHR 0x27 # ''NoneType' object has no attribute 'split'' @ [CHR 0x27]))
      | Some s \<Rightarrow>
          (let scope_list = str_split s CHR '' '';
               check_list = list_of_set scope_list
           in if snd (list_sort [scope_list]) = snd (list_sort check_list)
              then Inr v
              else Inl (ValueError
                ''scopes has to be a string with every scope appearing only once'')))"

text \<open>
  Building a \<^verbatim>\<open>RoleBase\<close>: \<open>name\<close> is required; \<open>scopes\<close> defaults to the empty
  string, and the validator runs only on a value that was given (it is not declared
  \<^verbatim>\<open>always\<close>). \<^verbatim>\<open>RoleIn\<close> and \<^verbatim>\<open>RoleOut\<close> add nothing to \<^verbatim>\<open>RoleBase\<close>.
\<close>

definition RoleBase_init :: "string \<Rightarrow> string option arg \<Rightarrow> error + RoleBase" where
  "RoleBase_init nm sc =
     (case sc of
        Omitted \<Rightarrow> Inr \<lparr>name = nm, scopes = Some ''''\<rparr>
      | Given v \<Rightarrow>
          (case every_scope_only_once v of
             Inl err \<Rightarrow> Inl err
           | Inr v' \<Rightarrow> Inr \<lparr>name = nm, scopes = v'\<rparr>))"

definition RoleIn_init :: "string \<Rightarrow> string option arg \<Rightarrow> error + RoleBase" where
  "RoleIn_init = RoleBase_init"

definition RoleOut_init :: "string \<Rightarrow> string option arg \<Rightarrow> error + RoleBase" where
  "RoleOut_init = RoleBase_init"

subsection \<open>The world a constructor runs in\<close>

text \<open>\<^verbatim>\<open>datetime\<close>: a naive date and time, to the microsecond.\<close>

record datetime =
  year :: nat
  month :: nat
  day :: nat
  hour :: nat
  minute :: nat
  second :: nat
  microsecond :: nat

text \<open>
  What the library calls of the module return at one moment: \<open>time\<close> is the result of
  \<^verbatim>\<open>time()\<close> (seconds since the epoch, with a fraction), \<open>utcnow\<close> that of
  \<^verbatim>\<open>datetime.utcnow()\<close>, and \<open>urandom i\<close> is the result of the \<open>i\<close>-th call of
  \<^verbatim>\<open>uuid.uuid4()\<close>, of which \<open>draws\<close> have been made so far.
\<close>

record world =
  time :: real
  utcnow :: datetime
  urandom :: "nat \<Rightarrow> uuid"
  draws :: nat

definition uuid4 :: "world \<Rightarrow> uuid \<times> world" where
  "uuid4 w = (urandom w (draws w), w\<lparr>draws := Suc (draws w)\<rparr>)"

text \<open>\<^verbatim>\<open>int(x)\<close> on a float: the fraction is cut off, towards zero.\<close>

definition py_int :: "real \<Rightarrow> int" where
  "py_int x = (if 0 \<le> x then \<lfloor>x\<rfloor> else \<lceil>x\<rceil>)"

definition or_default :: "'a arg \<Rightarrow> 'a \<Rightarrow> 'a" where
  "or_default a d = (case a of Omitted \<Rightarrow> d | Given v \<Rightarrow> v)"

record RoleInDB = RoleBase +
  id :: uuid

text \<open>
  \<^verbatim>\<open>RoleInDB\<close> inherits the validator; its \<open>id\<close> comes from \<^verbatim>\<open>uuid4\<close> unless given.
  The fields are processed in the order \<open>name\<close>, \<open>scopes\<close>, \<open>id\<close>. The
  \<^verbatim>\<open>AttributeError\<close> of the validator is no validation error: it leaves the
  constructor at once, before the factory of \<open>id\<close> is called. A validation error is
  collected, and the factory is still called before the constructor fails.
\<close>

definition RoleInDB_init ::
  "world \<Rightarrow> string \<Rightarrow> string option arg \<Rightarrow> uuid arg \<Rightarrow> (error + RoleInDB) \<times> world" where
  "RoleInDB_init w nm sc i =
     (case RoleBase_init nm sc of
        Inl (AttributeError msg) \<Rightarrow> (Inl (AttributeError msg), w)
      | Inl err \<Rightarrow> (Inl err, snd (case i of Omitted \<Rightarrow> uuid4 w | Given v \<Rightarrow> (v, w)))
      | Inr r \<Rightarrow>
          (let (u, w') = (case i of Omitted \<Rightarrow> uuid4 w | Given v \<Rightarrow> (v, w))
           in (Inr \<lparr>name = name r, scopes = RoleBase.scopes r, id = u\<rparr>, w')))"

subsection \<open>User\<close>

record UserBase =
  username :: string

record UserInDB = UserBase +
  id :: uuid
  hashed_password :: string
  roles :: "RoleInDB list option"

text \<open>
  \<^verbatim>\<open>UserInUpdate\<close> redeclares \<open>username\<close> and \<open>password\<close> as optional and inherits
  \<^verbatim>\<open>roles: Optional[list[str]] = []\<close> from \<^verbatim>\<open>UserIn\<close>.
\<close>

record UserInUpdate =
  username :: "string option"
  password :: "string option"
  roles :: "string list option"

text \<open>The root validator (lines 76-83). \<^verbatim>\<open>len(None)\<close> raises a \<^verbatim>\<open>TypeError\<close>.\<close>

definition check_for_no_data :: "UserInUpdate \<Rightarrow> error + UserInUpdate" where
  "check_for_no_data values =
     (let username_check = (UserInUpdate.username values = None);
          password_check = (UserInUpdate.password values = None)
      in case UserInUpdate.roles values of
           None \<Rightarrow> Inl (TypeError ''object of type 'NoneType' has no len()'')
         | Some rs \<Rightarrow>
             (let roles_check = (length rs = 0)
              in if list_all (\<lambda>b. b) [username_check, password_check, roles_check]
                 then Inl (ValueError ''No data received'')
                 else Inr values))"

text \<open>
  Building a \<^verbatim>\<open>UserInUpdate\<close>. The type \<^verbatim>\<open>EmailStr\<close> belongs to pydantic: its check,
  which rejects a string that is no address and returns an address normalised, is the
  parameter \<open>EmailStr\<close>. It runs on a \<open>username\<close> that is given and not \<^verbatim>\<open>None\<close>.
  The root validator is declared \<^verbatim>\<open>skip_on_failure\<close>: it runs on the checked values,
  and not at all when a field has failed.
\<close>

definition UserInUpdate_init ::
  "(string \<Rightarrow> error + string) \<Rightarrow>
   string option arg \<Rightarrow> string option arg \<Rightarrow> string list option arg \<Rightarrow> error + UserInUpdate" where
  "UserInUpdate_init EmailStr u p r =
     (case or_default u None of
        None \<Rightarrow>
          check_for_no_data
            \<lparr>username = None, password = or_default p None, roles = or_default r (Some [])\<rparr>
      | Some s \<Rightarrow>
          (case EmailStr s of
             Inl err \<Rightarrow> Inl err
           | Inr address \<Rightarrow>
               check_for_no_data
                 \<lparr>username = Some address, password = or_default p None,
                  roles = or_default r (Some [])\<rparr>))"

subsection \<open>Internal database models\<close>

record RefreshToken =
  token :: uuid
  user :: UserInDB
  exp :: int

record KeyPair =
  kid :: string
  public_key :: string
  private_key :: string
  exp :: datetime
  added_at :: "datetime option"

text \<open>
  The validator of \<open>added_at\<close> (lines 118-121) is declared \<^verbatim>\<open>pre=True, always=True\<close>:
  it runs before the value is parsed, on whatever the caller passed (of any type
  \<open>'v\<close>) and also when nothing was passed, where it gets the default \<^verbatim>\<open>None\<close>.
\<close>

definition add_added_at :: "world \<Rightarrow> 'v option \<Rightarrow> datetime" where
  "add_added_at w v = utcnow w"

definition KeyPair_init ::
  "world \<Rightarrow> string \<Rightarrow> string \<Rightarrow> string \<Rightarrow> datetime \<Rightarrow> 'v option arg \<Rightarrow> KeyPair" where
  "KeyPair_init w k pub priv ex supplied =
     \<lparr>kid = k, public_key = pub, private_key = priv, exp = ex,
      added_at = Some (add_added_at w (or_default supplied None))\<rparr>"

subsection \<open>Response models\<close>

record Token =
  iss :: "string option"
  sub :: "string option"
  aud :: "string option"
  exp :: int
  nbf :: "int option"
  iat :: "int option"
  jti :: "uuid option"
  scopes :: "string list"

text \<open>
  What executing the class body of \<^verbatim>\<open>Token\<close> leaves behind, once, when the module is
  imported: the default of \<open>aud\<close> is the value of \<^verbatim>\<open>config.AUD\<close> (a parameter: the
  configuration is not part of this file) and the default of \<open>iat\<close> is the value of
  \<^verbatim>\<open>int(time())\<close>, both computed then. The default of \<open>jti\<close> is a factory, which
  is called at every construction.
\<close>

record schemas =
  Token_aud :: "string option"
  Token_iat :: "int option"

definition import_schemas :: "string option \<Rightarrow> world \<Rightarrow> schemas" where
  "import_schemas config_AUD w =
     \<lparr>Token_aud = config_AUD, Token_iat = Some (py_int (time w))\<rparr>"

record Token_kwargs =
  kw_iss :: "string option arg"
  kw_sub :: "string option arg"
  kw_aud :: "string option arg"
  kw_exp :: int
  kw_nbf :: "int option arg"
  kw_iat :: "int option arg"
  kw_jti :: "uuid option arg"
  kw_scopes :: "string list arg"

text \<open>
  Building a \<^verbatim>\<open>Token\<close> in the world \<open>w\<close>, the module having been imported as \<open>m\<close>.
  The class declares no validator. Keyword arguments that name no field are kept
  beside the fields (\<^verbatim>\<open>Extra.allow\<close>) and change none of them.
\<close>

definition Token_init :: "schemas \<Rightarrow> world \<Rightarrow> Token_kwargs \<Rightarrow> Token \<times> world" where
  "Token_init m w kw =
     (let (j, w') = (case kw_jti kw of
                       Omitted \<Rightarrow> (let (u, w1) = uuid4 w in (Some u, w1))
                     | Given v \<Rightarrow> (v, w))
      in (\<lparr>iss = or_default (kw_iss kw) (Some ''authopie''),
           sub = or_default (kw_sub kw) (Some ''subject''),
           aud = or_default (kw_aud kw) (Token_aud m),
           exp = kw_exp kw,
           nbf = or_default (kw_nbf kw) (Some 0),
           iat = or_default (kw_iat kw) (Token_iat m),
           jti = j,
           scopes = or_default (kw_scopes kw) []\<rparr>, w'))"

text \<open>The invariant \<open>exp > iat\<close> of a token; without an \<open>iat\<close> it does not hold.\<close>

definition exp_after_iat :: "Token \<Rightarrow> bool" where
  "exp_after_iat t = (case iat t of None \<Rightarrow> False | Some i \<Rightarrow> i < Token.exp t)"

text \<open>
  Modelled from the spec: the not-before check of the token verifier (section 4.4,
  \<open>nbf <= now\<close>), which is not part of schemas.py. A token without \<open>nbf\<close> passes.
\<close>

definition not_before_ok :: "Token \<Rightarrow> int \<Rightarrow> bool" where
  "not_before_ok t now = (case nbf t of None \<Rightarrow> True | Some b \<Rightarrow> b \<le> now)"

record JWK =
  kid :: string
  kty :: string
  alg :: string
  use :: string
  n :: string
  e :: string
  x5c :: "string option"
  x5t :: "string option"

record JWKS =
  keys :: "JWK list"




section \<open>Properties\<close>

subsection \<open>Splitting and joining\<close>

lemma split_acc_no_sep:
  "sep \<notin> set w \<Longrightarrow> split_acc sep acc w = [rev acc @ w]"
  by (induction w arbitrary: acc) auto

lemma split_acc_piece:
  "sep \<notin> set w \<Longrightarrow>
   split_acc sep acc (w @ sep # rest) = (rev acc @ w) # split_acc sep [] rest"
  by (induction w arbitrary: acc) auto

lemma split_join:
  "xs \<noteq> [] \<Longrightarrow> (\<forall>x \<in> set xs. sep \<notin> set x) \<Longrightarrow>
   split_acc sep [] (str_join [sep] xs) = xs"
proof (induction "[sep]" xs rule: str_join.induct)
  case 1
  then show ?case by simp
next
  case (2 x)
  then show ?case by (simp add: split_acc_no_sep)
next
  case (3 x y ys)
  from "3.prems" have x: "sep \<notin> set x" and rest: "\<forall>z \<in> set (y # ys). sep \<notin> set z"
    by auto
  from "3.hyps" rest have "split_acc sep [] (str_join [sep] (y # ys)) = y # ys"
    by blast
  with x show ?case by (simp add: split_acc_piece)
qed

text \<open>
  C10. For a non-empty list of scope strings none of which contains a space,
  \<open>set_scopes_from_list\<close> followed by \<open>get_scopes_as_list\<close> gives the list back; for
  the empty list it gives the one-element list holding the empty string.
\<close>

theorem scopes_list_roundtrip:
  "(xs \<noteq> [] \<and> (\<forall>x \<in> set xs. CHR '' '' \<notin> set x) \<longrightarrow>
      get_scopes_as_list (fst (set_scopes_from_list self xs)) = xs) \<and>
   get_scopes_as_list (fst (set_scopes_from_list self [])) = [[]]"
  by (simp add: get_scopes_as_list_def set_scopes_from_list_def str_split_def split_join)

theorem scopes_list_roundtrip_witness:
  "get_scopes_as_list
     (fst (set_scopes_from_list \<lparr>name = ''admin'', scopes = None\<rparr> [''read'', ''write'', '''']))
     = [''read'', ''write'', ''''] \<and>
   get_scopes_as_list (fst (set_scopes_from_list \<lparr>name = ''admin'', scopes = None\<rparr> [])) = ['''']"
  using scopes_list_roundtrip [of "[''read'', ''write'', '''']" "\<lparr>name = ''admin'', scopes = None\<rparr>"]
  by simp

subsection \<open>The scopes validator\<close>

lemma list_sort_returns_None: "snd (list_sort xs) = PyNone"
  by (simp add: list_sort_def)

text \<open>
  C1. A role whose scopes string names a scope twice should be rejected. The test of
  the validator compares the results of two calls of \<^verbatim>\<open>sort\<close>, which are both
  \<^verbatim>\<open>None\<close>: the role with the scopes \<^verbatim>\<open>read read\<close>, whose list of scopes holds
  \<^verbatim>\<open>read\<close> twice, is built, scopes unchanged.
\<close>

theorem duplicate_scopes_accepted:
  "RoleBase_init ''admin'' (Given (Some ''read read''))
     = Inr \<lparr>name = ''admin'', scopes = Some ''read read''\<rparr> \<and>
   RoleIn_init ''admin'' (Given (Some ''read read''))
     = Inr \<lparr>name = ''admin'', scopes = Some ''read read''\<rparr> \<and>
   RoleOut_init ''admin'' (Given (Some ''read read''))
     = Inr \<lparr>name = ''admin'', scopes = Some ''read read''\<rparr> \<and>
   RoleInDB_init w ''admin'' (Given (Some ''read read'')) (Given u)
     = (Inr \<lparr>name = ''admin'', scopes = Some ''read read'', RoleInDB.id = u\<rparr>, w) \<and>
   str_split ''read read'' CHR '' '' = [''read'', ''read''] \<and>
   \<not> distinct (str_split ''read read'' CHR '' '')"
  by (simp add: RoleBase_init_def RoleIn_init_def RoleOut_init_def RoleInDB_init_def
      every_scope_only_once_def list_sort_returns_None str_split_def)

text \<open>The validator returns every string it is given, with or without duplicates.\<close>

theorem every_scope_only_once_accepts:
  "every_scope_only_once (Some s) = Inr (Some s)"
  by (simp add: every_scope_only_once_def list_sort_returns_None)

subsection \<open>The refresh token\<close>

text \<open>
  C2, as the code has it. A \<^verbatim>\<open>RefreshToken\<close> is its token id, its user and its
  expiry, and nothing else: the record has no consumed flag.
\<close>

theorem RefreshToken_three_fields:
  "(t :: RefreshToken) = \<lparr>token = token t, user = user t, exp = RefreshToken.exp t\<rparr>"
  by simp

text \<open>
  C2, as stated, asks for a consumption state beside the id, the user and the expiry:
  then a token and its consumed copy would be two records with the same three fields.
  There are no two such records.
\<close>

theorem RefreshToken_no_consumption_state:
  "\<not> (\<exists>a b :: RefreshToken.
        token a = token b \<and> user a = user b \<and> RefreshToken.exp a = RefreshToken.exp b \<and>
        a \<noteq> b)"
  by auto

subsection \<open>The key pair\<close>

text \<open>
  C3. Whatever the caller passes as \<open>added_at\<close>, or if nothing is passed, the field of
  the key pair built in the world \<open>w\<close> is the time \<^verbatim>\<open>datetime.utcnow()\<close> returns
  there.
\<close>

theorem KeyPair_added_at_now:
  "added_at (KeyPair_init w k pub priv ex supplied) = Some (utcnow w)"
  by (simp add: KeyPair_init_def add_added_at_def)

subsection \<open>The access token\<close>

lemma Token_init_exp: "Token.exp (fst (Token_init m w kw)) = kw_exp kw"
  by (simp add: Token_init_def uuid4_def split: arg.splits prod.splits)

lemma Token_init_iat: "iat (fst (Token_init m w kw)) = or_default (kw_iat kw) (Token_iat m)"
  by (simp add: Token_init_def uuid4_def split: arg.splits prod.splits)

lemma Token_init_nbf: "nbf (fst (Token_init m w kw)) = or_default (kw_nbf kw) (Some 0)"
  by (simp add: Token_init_def uuid4_def split: arg.splits prod.splits)


text \<open>
  C4. A token built without \<open>iat\<close> should carry the time of its construction. The
  module imported at time 1000.5 and the token built by \<^verbatim>\<open>Token(exp=5000)\<close> at time
  2000.25, the token's \<open>iat\<close> is 1000, the second of the import, and not 2000.
\<close>

theorem Token_iat_is_import_time:
  "(let at_import = \<lparr>time = 1000.5,
               utcnow = \<lparr>year = 1970, month = 1, day = 1, hour = 0, minute = 16, second = 40,
                         microsecond = 500000\<rparr>,
               urandom = (\<lambda>i. 0x123e4567e89b42d3a456426614174000), draws = 0\<rparr>;
        at_issue = \<lparr>time = 2000.25,
               utcnow = \<lparr>year = 1970, month = 1, day = 1, hour = 0, minute = 33, second = 20,
                         microsecond = 250000\<rparr>,
               urandom = (\<lambda>i. 0x123e4567e89b42d3a456426614174000), draws = 0\<rparr>;
        kw = \<lparr>kw_iss = Omitted, kw_sub = Omitted, kw_aud = Omitted, kw_exp = 5000,
               kw_nbf = Omitted, kw_iat = Omitted, kw_jti = Omitted, kw_scopes = Omitted\<rparr>;
        m = import_schemas None at_import
    in iat (fst (Token_init m at_issue kw)) = Some 1000 \<and> py_int (time at_issue) = 2000)"
  by (simp add: Token_init_iat import_schemas_def or_default_def py_int_def)

text \<open>
  In general the \<open>iat\<close> of a token built without one is the second at which the module
  was imported (in the world \<open>w0\<close>), whatever the world \<open>w\<close> of the construction.
\<close>

theorem Token_iat_default_frozen:
  "kw_iat kw = Omitted \<Longrightarrow>
   iat (fst (Token_init (import_schemas a w0) w kw)) = Some (py_int (time w0))"
  by (simp add: Token_init_iat import_schemas_def or_default_def)

theorem Token_iat_default_frozen_witness:
  "(let at_import = \<lparr>time = 1000.5,
               utcnow = \<lparr>year = 1970, month = 1, day = 1, hour = 0, minute = 16, second = 40,
                         microsecond = 500000\<rparr>,
               urandom = (\<lambda>i. 0x123e4567e89b42d3a456426614174000), draws = 0\<rparr>;
        at_issue = \<lparr>time = 2000.25,
               utcnow = \<lparr>year = 1970, month = 1, day = 1, hour = 0, minute = 33, second = 20,
                         microsecond = 250000\<rparr>,
               urandom = (\<lambda>i. 0x123e4567e89b42d3a456426614174000), draws = 0\<rparr>;
        kw = \<lparr>kw_iss = Omitted, kw_sub = Omitted, kw_aud = Omitted, kw_exp = 5000,
               kw_nbf = Omitted, kw_iat = Omitted, kw_jti = Omitted, kw_scopes = Omitted\<rparr>
    in iat (fst (Token_init (import_schemas None at_import) at_issue kw)) = Some 1000)"
proof -
  let ?at_import = "\<lparr>time = 1000.5,
               utcnow = \<lparr>year = 1970, month = 1, day = 1, hour = 0, minute = 16, second = 40,
                         microsecond = 500000\<rparr>,
               urandom = (\<lambda>i. 0x123e4567e89b42d3a456426614174000), draws = 0\<rparr>"
  let ?at_issue = "\<lparr>time = 2000.25,
               utcnow = \<lparr>year = 1970, month = 1, day = 1, hour = 0, minute = 33, second = 20,
                         microsecond = 250000\<rparr>,
               urandom = (\<lambda>i. 0x123e4567e89b42d3a456426614174000), draws = 0\<rparr>"
  let ?kw = "\<lparr>kw_iss = Omitted, kw_sub = Omitted, kw_aud = Omitted, kw_exp = 5000,
               kw_nbf = Omitted, kw_iat = Omitted, kw_jti = Omitted, kw_scopes = Omitted\<rparr>"
  have "iat (fst (Token_init (import_schemas None ?at_import) ?at_issue ?kw)) = Some 1000"
    using Token_iat_default_frozen [of ?kw None ?at_import ?at_issue]
    by (simp add: py_int_def)
  then show ?thesis by simp
qed

text \<open>
  The identifiers are finitely many, so no source of draws is free of repetition for
  ever; freshness is a property of the draws made so far.
\<close>

lemma no_source_injective: "\<not> inj (f :: nat \<Rightarrow> uuid)"
proof
  assume "inj f"
  moreover have "finite (range f)"
    by (rule finite_subset [of _ UNIV]) simp_all
  ultimately have "finite (UNIV :: nat set)"
    by (rule finite_imageD [rotated])
  then show False by simp
qed



text \<open>
  C6, as the code has it. The constructor checks nothing: the token's \<open>exp\<close> is the
  one passed, and \<open>exp > iat\<close> holds for the token exactly when the \<open>exp\<close> passed
  is greater than the \<open>iat\<close> passed or, without one, than the default.
\<close>

theorem Token_exp_iat_unchecked:
  "Token.exp (fst (Token_init m w kw)) = kw_exp kw \<and>
   (exp_after_iat (fst (Token_init m w kw)) \<longleftrightarrow>
      (case or_default (kw_iat kw) (Token_iat m) of
         None \<Rightarrow> False
       | Some i \<Rightarrow> i < kw_exp kw))"
  by (simp add: exp_after_iat_def Token_init_exp Token_init_iat split: option.splits)

text \<open>
  C6, as stated, fails: the module imported at time 1000.5, hence with the default
  \<open>iat\<close> 1000, the token built by \<^verbatim>\<open>Token(exp=5)\<close> exists and has \<open>exp \<le> iat\<close>.
\<close>

theorem Token_exp_before_iat:
  "(let at_import = \<lparr>time = 1000.5,
               utcnow = \<lparr>year = 1970, month = 1, day = 1, hour = 0, minute = 16, second = 40,
                         microsecond = 500000\<rparr>,
               urandom = (\<lambda>i. 0x123e4567e89b42d3a456426614174000), draws = 0\<rparr>;
        at_issue = \<lparr>time = 2000.25,
               utcnow = \<lparr>year = 1970, month = 1, day = 1, hour = 0, minute = 33, second = 20,
                         microsecond = 250000\<rparr>,
               urandom = (\<lambda>i. 0x123e4567e89b42d3a456426614174000), draws = 0\<rparr>;
        kw = \<lparr>kw_iss = Omitted, kw_sub = Omitted, kw_aud = Omitted, kw_exp = 5,
               kw_nbf = Omitted, kw_iat = Omitted, kw_jti = Omitted, kw_scopes = Omitted\<rparr>;
        t = fst (Token_init (import_schemas None at_import) at_issue kw)
    in \<not> exp_after_iat t \<and> Token.exp t = 5 \<and> iat t = Some 1000)"
  by (simp add: exp_after_iat_def Token_init_exp Token_init_iat import_schemas_def
      or_default_def py_int_def)

text \<open>
  C8. A token built without \<open>nbf\<close> has \<open>nbf = 0\<close>, and so passes the not-before check
  at every time from the epoch on.
\<close>

theorem Token_nbf_default:
  "kw_nbf kw = Omitted \<Longrightarrow>
   nbf (fst (Token_init m w kw)) = Some 0 \<and>
   (\<forall>now \<ge> 0. not_before_ok (fst (Token_init m w kw)) now)"
  by (simp add: Token_init_nbf not_before_ok_def or_default_def)

theorem Token_nbf_default_witness:
  "(let at_import = \<lparr>time = 1000.5,
               utcnow = \<lparr>year = 1970, month = 1, day = 1, hour = 0, minute = 16, second = 40,
                         microsecond = 500000\<rparr>,
               urandom = (\<lambda>i. 0x123e4567e89b42d3a456426614174000), draws = 0\<rparr>;
        at_issue = \<lparr>time = 2000.25,
               utcnow = \<lparr>year = 1970, month = 1, day = 1, hour = 0, minute = 33, second = 20,
                         microsecond = 250000\<rparr>,
               urandom = (\<lambda>i. 0x123e4567e89b42d3a456426614174000), draws = 0\<rparr>;
        kw = \<lparr>kw_iss = Omitted, kw_sub = Omitted, kw_aud = Omitted, kw_exp = 5000,
               kw_nbf = Omitted, kw_iat = Omitted, kw_jti = Omitted, kw_scopes = Omitted\<rparr>;
        t = fst (Token_init (import_schemas None at_import) at_issue kw)
    in nbf t = Some 0 \<and> not_before_ok t 0 \<and> not_before_ok t 2000)"
proof -
  let ?at_import = "\<lparr>time = 1000.5,
               utcnow = \<lparr>year = 1970, month = 1, day = 1, hour = 0, minute = 16, second = 40,
                         microsecond = 500000\<rparr>,
               urandom = (\<lambda>i. 0x123e4567e89b42d3a456426614174000), draws = 0\<rparr>"
  let ?at_issue = "\<lparr>time = 2000.25,
               utcnow = \<lparr>year = 1970, month = 1, day = 1, hour = 0, minute = 33, second = 20,
                         microsecond = 250000\<rparr>,
               urandom = (\<lambda>i. 0x123e4567e89b42d3a456426614174000), draws = 0\<rparr>"
  let ?kw = "\<lparr>kw_iss = Omitted, kw_sub = Omitted, kw_aud = Omitted, kw_exp = 5000,
               kw_nbf = Omitted, kw_iat = Omitted, kw_jti = Omitted, kw_scopes = Omitted\<rparr>"
  let ?t = "fst (Token_init (import_schemas None ?at_import) ?at_issue ?kw)"
  have "nbf ?t = Some 0 \<and> not_before_ok ?t 0 \<and> not_before_ok ?t 2000"
    using Token_nbf_default [of ?kw "import_schemas None ?at_import" ?at_issue] by simp
  then show ?thesis by (simp add: Let_def)
qed

subsection \<open>The update of a user\<close>

text \<open>
  With a list of roles the root validator rejects exactly the update without data, with
  the message \<^verbatim>\<open>No data received\<close>, and returns every other update unchanged.
\<close>

theorem check_for_no_data_roles_list:
  "UserInUpdate.roles values = Some rs \<Longrightarrow>
   check_for_no_data values =
     (if UserInUpdate.username values = None \<and> UserInUpdate.password values = None \<and> rs = []
      then Inl (ValueError ''No data received'')
      else Inr values)"
  by (simp add: check_for_no_data_def)

theorem check_for_no_data_roles_list_witness:
  "check_for_no_data \<lparr>username = None, password = None, roles = Some []\<rparr>
     = Inl (ValueError ''No data received'') \<and>
   check_for_no_data \<lparr>username = None, password = None, roles = Some [''admin'']\<rparr>
     = Inr \<lparr>username = None, password = None, roles = Some [''admin'']\<rparr>"
  using check_for_no_data_roles_list
      [of "\<lparr>username = None, password = None, roles = Some []\<rparr>" "[]"]
    check_for_no_data_roles_list
      [of "\<lparr>username = None, password = None, roles = Some [''admin'']\<rparr>" "[''admin'']"]
  by simp

text \<open>
  C9. An update that carries data should be built, its values unchanged. The field
  \<open>roles\<close> is optional, so \<^verbatim>\<open>None\<close> is a value of it; there the validator takes the
  length of \<^verbatim>\<open>None\<close>, and the update with a user name, a password and
  \<^verbatim>\<open>roles=None\<close> is rejected: with a \<^verbatim>\<open>TypeError\<close> where the e-mail check accepts
  the user name, as the check that returns every address unchanged does, and with the
  error of the e-mail check otherwise.
\<close>

theorem UserInUpdate_roles_None_rejected:
  "UserInUpdate_init Inr (Given (Some ''ada@example.org'')) (Given (Some ''secret'')) (Given None)
     = Inl (TypeError ''object of type 'NoneType' has no len()'') \<and>
   UserInUpdate_init EmailStr (Given (Some ''ada@example.org'')) (Given (Some ''secret''))
       (Given None)
     = (case EmailStr ''ada@example.org'' of
          Inl err \<Rightarrow> Inl err
        | Inr address \<Rightarrow> Inl (TypeError ''object of type 'NoneType' has no len()'')) \<and>
   check_for_no_data
       \<lparr>username = Some ''ada@example.org'', password = Some ''secret'', roles = None\<rparr>
     = Inl (TypeError ''object of type 'NoneType' has no len()'')"
  by (simp add: UserInUpdate_init_def check_for_no_data_def or_default_def split: sum.splits)

subsection \<open>The key set\<close>



end
